theory Spec2Isabelle
  imports Main "HOL-Library.Word"
begin

section \<open>amtl/experimental/am-atomic.h: atomic values under a memory-ordering policy\<close>

text \<open>
  The header defines an enumeration \<^verbatim>\<open>MemoryOrdering\<close>, a value core
  \<^verbatim>\<open>impl::AtomicValueImpl<T, Order>\<close> written twice (once over C++11
  \<^verbatim>\<open>std::atomic\<close>, once over GCC's \<^verbatim>\<open>__sync\<close> builtins with explicit fences), the
  declaration of the class template \<^verbatim>\<open>Atomic<T, Order>\<close> and its one partial
  specialisation \<^verbatim>\<open>Atomic<bool, Order>\<close>.

  The model is sequential. An object is its member \<^verbatim>\<open>value_\<close> together with the
  list of memory instructions its methods have executed so far, oldest first; the list
  is what makes a fence (which changes no value) visible in a theorem. The member
  is written \<open>value'\<close>, since a name cannot end in an underscore here.
\<close>

subsection \<open>Orderings\<close>

text \<open>\<^verbatim>\<open>enum class MemoryOrdering { Relaxed, SeqCst }\<close> (lines 50-58).\<close>

datatype MemoryOrdering = Relaxed | SeqCst

text \<open>The enumerators of \<^verbatim>\<open>std::memory_order\<close>, in the order of the C++11 header.\<close>

datatype memory_order =
    memory_order_relaxed
  | memory_order_consume
  | memory_order_acquire
  | memory_order_release
  | memory_order_acq_rel
  | memory_order_seq_cst

subsection \<open>Memory instructions\<close>

text \<open>
  One constructor for each primitive the two cores call:
  \<^item> \<open>AtomicLoad\<close>, \<open>AtomicStore\<close>, \<open>AtomicExchange\<close>: the members \<^verbatim>\<open>load\<close>,
    \<^verbatim>\<open>store\<close> and \<^verbatim>\<open>exchange\<close> of \<^verbatim>\<open>std::atomic<T>\<close>, with the ordering passed;
  \<^item> \<open>FullBarrier\<close>: \<^verbatim>\<open>__sync_synchronize()\<close>, GCC's full memory barrier;
  \<^item> \<open>LockTestAndSet\<close>: \<^verbatim>\<open>__sync_lock_test_and_set\<close>, GCC's atomic exchange, documented
    as an acquire barrier only;
  \<^item> \<open>PlainRead\<close>, \<open>PlainWrite\<close>: an ordinary read or assignment of \<^verbatim>\<open>value_\<close>.
\<close>

datatype 'a instr =
    AtomicLoad memory_order
  | AtomicStore 'a memory_order
  | AtomicExchange 'a memory_order
  | FullBarrier
  | LockTestAndSet 'a
  | PlainRead
  | PlainWrite 'a

record 'a AtomicValueImpl =
  value' :: 'a
  trace :: "'a instr list"

definition issue :: "'a instr \<Rightarrow> 'a AtomicValueImpl \<Rightarrow> 'a AtomicValueImpl" where
  "issue i m = m\<lparr>trace := trace m @ [i]\<rparr>"

subsection \<open>The primitives\<close>

text \<open>\<^verbatim>\<open>std::atomic<T>::exchange(desired, order)\<close>: stores, returns the value held before.\<close>

definition std_atomic_exchange ::
  "'a \<Rightarrow> memory_order \<Rightarrow> 'a AtomicValueImpl \<Rightarrow> 'a \<times> 'a AtomicValueImpl" where
  "std_atomic_exchange desired order m =
     (value' m, issue (AtomicExchange desired order) (m\<lparr>value' := desired\<rparr>))"

definition std_atomic_load ::
  "memory_order \<Rightarrow> 'a AtomicValueImpl \<Rightarrow> 'a \<times> 'a AtomicValueImpl" where
  "std_atomic_load order m = (value' m, issue (AtomicLoad order) m)"

definition std_atomic_store ::
  "'a \<Rightarrow> memory_order \<Rightarrow> 'a AtomicValueImpl \<Rightarrow> 'a AtomicValueImpl" where
  "std_atomic_store desired order m = issue (AtomicStore desired order) (m\<lparr>value' := desired\<rparr>)"

text \<open>\<^verbatim>\<open>__sync_synchronize()\<close>.\<close>

definition sync_synchronize :: "'a AtomicValueImpl \<Rightarrow> 'a AtomicValueImpl" where
  "sync_synchronize m = issue FullBarrier m"

text \<open>\<^verbatim>\<open>__sync_lock_test_and_set(&value_, newValue)\<close>: writes, returns the previous contents.\<close>

definition sync_lock_test_and_set ::
  "'a \<Rightarrow> 'a AtomicValueImpl \<Rightarrow> 'a \<times> 'a AtomicValueImpl" where
  "sync_lock_test_and_set newValue m =
     (value' m, issue (LockTestAndSet newValue) (m\<lparr>value' := newValue\<rparr>))"

text \<open>\<^verbatim>\<open>T value = value_;\<close> and \<^verbatim>\<open>value_ = value;\<close> in the fence-based core.\<close>

definition plain_read :: "'a AtomicValueImpl \<Rightarrow> 'a \<times> 'a AtomicValueImpl" where
  "plain_read m = (value' m, issue PlainRead m)"

definition plain_write :: "'a \<Rightarrow> 'a AtomicValueImpl \<Rightarrow> 'a AtomicValueImpl" where
  "plain_write v m = issue (PlainWrite v) (m\<lparr>value' := v\<rparr>)"

subsection \<open>The core over \<^verbatim>\<open>std::atomic\<close> (\<^verbatim>\<open>KE_USE_CXX11_ATOMICS\<close>, lines 62-107)\<close>

record StlOrder =
  Load :: memory_order
  Store :: memory_order
  ReadModifyWrite :: memory_order

fun StlOrdering :: "MemoryOrdering \<Rightarrow> StlOrder" where
  "StlOrdering Relaxed =
     \<lparr>Load = memory_order_relaxed,
      Store = memory_order_relaxed,
      ReadModifyWrite = memory_order_relaxed\<rparr>"
| "StlOrdering SeqCst =
     \<lparr>Load = memory_order_seq_cst,
      Store = memory_order_seq_cst,
      ReadModifyWrite = memory_order_seq_cst\<rparr>"

text \<open>\<^verbatim>\<open>explicit AtomicValueImpl(T value) : value_(value) {}\<close>\<close>

definition cxx11_AtomicValueImpl :: "'a \<Rightarrow> 'a AtomicValueImpl" where
  "cxx11_AtomicValueImpl v = \<lparr>value' = v, trace = []\<rparr>"

definition cxx11_exchange ::
  "MemoryOrdering \<Rightarrow> 'a \<Rightarrow> 'a AtomicValueImpl \<Rightarrow> 'a \<times> 'a AtomicValueImpl" where
  "cxx11_exchange Order newValue m =
     std_atomic_exchange newValue (ReadModifyWrite (StlOrdering Order)) m"

definition cxx11_get :: "MemoryOrdering \<Rightarrow> 'a AtomicValueImpl \<Rightarrow> 'a \<times> 'a AtomicValueImpl" where
  "cxx11_get Order m = std_atomic_load (Load (StlOrdering Order)) m"

definition cxx11_set :: "MemoryOrdering \<Rightarrow> 'a \<Rightarrow> 'a AtomicValueImpl \<Rightarrow> 'a AtomicValueImpl" where
  "cxx11_set Order v m = std_atomic_store v (Store (StlOrdering Order)) m"

subsection \<open>The core over fences (\<^verbatim>\<open>__GNUC__\<close>, lines 111-177)\<close>

text \<open>
  \<^verbatim>\<open>Synchronize<Order>\<close>: four static functions, empty bodies for \<^verbatim>\<open>Relaxed\<close>, one
  \<^verbatim>\<open>__sync_synchronize()\<close> each for \<^verbatim>\<open>SeqCst\<close>.
\<close>

fun FenceBeforeLoad :: "MemoryOrdering \<Rightarrow> 'a AtomicValueImpl \<Rightarrow> 'a AtomicValueImpl" where
  "FenceBeforeLoad Relaxed m = m"
| "FenceBeforeLoad SeqCst m = sync_synchronize m"

fun FenceAfterLoad :: "MemoryOrdering \<Rightarrow> 'a AtomicValueImpl \<Rightarrow> 'a AtomicValueImpl" where
  "FenceAfterLoad Relaxed m = m"
| "FenceAfterLoad SeqCst m = sync_synchronize m"

fun FenceBeforeStore :: "MemoryOrdering \<Rightarrow> 'a AtomicValueImpl \<Rightarrow> 'a AtomicValueImpl" where
  "FenceBeforeStore Relaxed m = m"
| "FenceBeforeStore SeqCst m = sync_synchronize m"

fun FenceAfterStore :: "MemoryOrdering \<Rightarrow> 'a AtomicValueImpl \<Rightarrow> 'a AtomicValueImpl" where
  "FenceAfterStore Relaxed m = m"
| "FenceAfterStore SeqCst m = sync_synchronize m"

definition gnuc_AtomicValueImpl :: "'a \<Rightarrow> 'a AtomicValueImpl" where
  "gnuc_AtomicValueImpl v = \<lparr>value' = v, trace = []\<rparr>"

text \<open>
  \<^verbatim>\<open>Model::FenceBeforeStore(); return __sync_lock_test_and_set(&value_, newValue);\<close>
\<close>

definition gnuc_exchange ::
  "MemoryOrdering \<Rightarrow> 'a \<Rightarrow> 'a AtomicValueImpl \<Rightarrow> 'a \<times> 'a AtomicValueImpl" where
  "gnuc_exchange Order newValue m = sync_lock_test_and_set newValue (FenceBeforeStore Order m)"

text \<open>
  \<^verbatim>\<open>Model::FenceBeforeLoad(); T value = value_; Model::FenceAfterLoad(); return value;\<close>
\<close>

definition gnuc_get :: "MemoryOrdering \<Rightarrow> 'a AtomicValueImpl \<Rightarrow> 'a \<times> 'a AtomicValueImpl" where
  "gnuc_get Order m =
     (let m1 = FenceBeforeLoad Order m;
          (v, m2) = plain_read m1;
          m3 = FenceAfterLoad Order m2
      in (v, m3))"

text \<open>
  \<^verbatim>\<open>Model::FenceBeforeStore(); value' = value; Model::FenceAfterStore();\<close>
\<close>

definition gnuc_set :: "MemoryOrdering \<Rightarrow> 'a \<Rightarrow> 'a AtomicValueImpl \<Rightarrow> 'a AtomicValueImpl" where
  "gnuc_set Order v m =
     (let m1 = FenceBeforeStore Order m;
          m2 = plain_write v m1
      in FenceAfterStore Order m2)"

subsection \<open>Selecting the core\<close>

text \<open>
  The preprocessor keeps exactly one of the two definitions of \<^verbatim>\<open>AtomicValueImpl\<close>:
  the first under \<^verbatim>\<open>KE_USE_CXX11_ATOMICS\<close> (set for \<^verbatim>\<open>_MSC_VER\<close>), the second
  otherwise, under \<^verbatim>\<open>__GNUC__\<close>.
\<close>

datatype backend = Cxx11Atomics | GnuFences

fun Base :: "backend \<Rightarrow> 'a \<Rightarrow> 'a AtomicValueImpl" where
  "Base Cxx11Atomics v = cxx11_AtomicValueImpl v"
| "Base GnuFences v = gnuc_AtomicValueImpl v"

fun Base_exchange ::
  "backend \<Rightarrow> MemoryOrdering \<Rightarrow> 'a \<Rightarrow> 'a AtomicValueImpl \<Rightarrow> 'a \<times> 'a AtomicValueImpl" where
  "Base_exchange Cxx11Atomics Order newValue m = cxx11_exchange Order newValue m"
| "Base_exchange GnuFences Order newValue m = gnuc_exchange Order newValue m"

fun Base_get ::
  "backend \<Rightarrow> MemoryOrdering \<Rightarrow> 'a AtomicValueImpl \<Rightarrow> 'a \<times> 'a AtomicValueImpl" where
  "Base_get Cxx11Atomics Order m = cxx11_get Order m"
| "Base_get GnuFences Order m = gnuc_get Order m"

fun Base_set ::
  "backend \<Rightarrow> MemoryOrdering \<Rightarrow> 'a \<Rightarrow> 'a AtomicValueImpl \<Rightarrow> 'a AtomicValueImpl" where
  "Base_set Cxx11Atomics Order v m = cxx11_set Order v m"
| "Base_set GnuFences Order v m = gnuc_set Order v m"

subsection \<open>\<^verbatim>\<open>Atomic<bool, Order>\<close> (lines 187-212)\<close>

type_synonym int32_t = "32 word"

text \<open>\<^verbatim>\<open>Atomic() : Base(0) {}\<close>\<close>

definition Atomic_bool_default :: "backend \<Rightarrow> int32_t AtomicValueImpl" where
  "Atomic_bool_default be = Base be 0"

text \<open>\<^verbatim>\<open>explicit Atomic(bool value) : Base(value ? 1 : 0) {}\<close>\<close>

definition Atomic_bool_init :: "backend \<Rightarrow> bool \<Rightarrow> int32_t AtomicValueImpl" where
  "Atomic_bool_init be v = Base be (if v then 1 else 0)"

text \<open>\<^verbatim>\<open>operator bool() const { return !!Base::get(); }\<close>\<close>

definition Atomic_bool_operator_bool ::
  "backend \<Rightarrow> MemoryOrdering \<Rightarrow> int32_t AtomicValueImpl \<Rightarrow> bool \<times> int32_t AtomicValueImpl" where
  "Atomic_bool_operator_bool be Order m =
     (let (r, m') = Base_get be Order m in (r \<noteq> 0, m'))"

text \<open>\<^verbatim>\<open>bool exchange(bool value) { return !!Base::exchange(value ? 1 : 0); }\<close>\<close>

definition Atomic_bool_exchange ::
  "backend \<Rightarrow> MemoryOrdering \<Rightarrow> bool \<Rightarrow> int32_t AtomicValueImpl \<Rightarrow> bool \<times> int32_t AtomicValueImpl" where
  "Atomic_bool_exchange be Order v m =
     (let (r, m') = Base_exchange be Order (if v then 1 else 0) m in (r \<noteq> 0, m'))"

text \<open>The values the integer core of \<^verbatim>\<open>Atomic<bool, Order>\<close> is meant to hold.\<close>

definition Atomic_bool_inv :: "int32_t AtomicValueImpl \<Rightarrow> bool" where
  "Atomic_bool_inv m \<longleftrightarrow> value' m \<in> {0, 1}"

text \<open>
  The public operations of an \<^verbatim>\<open>Atomic<bool, Order>\<close> after construction: the
  conversion to \<^verbatim>\<open>bool\<close> and \<^verbatim>\<open>exchange\<close> (the base class is private, copying is
  deleted). A caller's use of one object is a list of them.
\<close>

datatype bool_op = Read | Xchg bool

fun apply_bool_op ::
  "backend \<Rightarrow> MemoryOrdering \<Rightarrow> bool_op \<Rightarrow> int32_t AtomicValueImpl
     \<Rightarrow> bool \<times> int32_t AtomicValueImpl" where
  "apply_bool_op be Order Read m = Atomic_bool_operator_bool be Order m"
| "apply_bool_op be Order (Xchg v) m = Atomic_bool_exchange be Order v m"

fun run_bool ::
  "backend \<Rightarrow> MemoryOrdering \<Rightarrow> bool_op list \<Rightarrow> int32_t AtomicValueImpl
     \<Rightarrow> int32_t AtomicValueImpl" where
  "run_bool be Order [] m = m"
| "run_bool be Order (x # xs) m = run_bool be Order xs (snd (apply_bool_op be Order x m))"

subsection \<open>The class template \<^verbatim>\<open>Atomic<T, Order>\<close> (lines 183-188)\<close>

text \<open>
  \<^verbatim>\<open>template <typename T, MemoryOrdering Order = MemoryOrdering::SeqCst> class Atomic;\<close>
  declares the primary template and gives it no body; the only definition is the partial
  specialisation for \<^verbatim>\<open>bool\<close>. Looking up \<^verbatim>\<open>Atomic<T, Order>\<close> therefore yields a
  class (its two constructors and two public member functions) for \<^verbatim>\<open>bool\<close> and an
  incomplete type, \<open>None\<close>, for every other argument.
\<close>

datatype cxx_type =
    T_bool
  | T_char
  | T_int32_t
  | T_int64_t
  | T_pointer cxx_type
  | T_class string

record Atomic_class =
  ctor_default :: "int32_t AtomicValueImpl"
  ctor_value :: "bool \<Rightarrow> int32_t AtomicValueImpl"
  operator_bool :: "int32_t AtomicValueImpl \<Rightarrow> bool \<times> int32_t AtomicValueImpl"
  exchange :: "bool \<Rightarrow> int32_t AtomicValueImpl \<Rightarrow> bool \<times> int32_t AtomicValueImpl"

fun Atomic :: "backend \<Rightarrow> cxx_type \<Rightarrow> MemoryOrdering \<Rightarrow> Atomic_class option" where
  "Atomic be T_bool Order =
     Some \<lparr>ctor_default = Atomic_bool_default be,
           ctor_value = Atomic_bool_init be,
           operator_bool = Atomic_bool_operator_bool be Order,
           exchange = Atomic_bool_exchange be Order\<rparr>"
| "Atomic be _ Order = None"

subsection \<open>Running a sequence of core operations\<close>

text \<open>
  The three member functions of \<^verbatim>\<open>AtomicValueImpl\<close> as requests; \<open>run_core\<close> applies
  a list of them to one object and collects what each returned (\<open>None\<close> for \<^verbatim>\<open>set\<close>,
  which returns \<^verbatim>\<open>void\<close>).
\<close>

datatype 'a core_op = OpGet | OpSet 'a | OpExchange 'a

fun apply_core_op ::
  "backend \<Rightarrow> MemoryOrdering \<Rightarrow> 'a core_op \<Rightarrow> 'a AtomicValueImpl
     \<Rightarrow> 'a option \<times> 'a AtomicValueImpl" where
  "apply_core_op be Order OpGet m = (let (r, m') = Base_get be Order m in (Some r, m'))"
| "apply_core_op be Order (OpSet v) m = (None, Base_set be Order v m)"
| "apply_core_op be Order (OpExchange v) m =
     (let (r, m') = Base_exchange be Order v m in (Some r, m'))"

fun run_core ::
  "backend \<Rightarrow> MemoryOrdering \<Rightarrow> 'a core_op list \<Rightarrow> 'a AtomicValueImpl
     \<Rightarrow> 'a option list \<times> 'a AtomicValueImpl" where
  "run_core be Order [] m = ([], m)"
| "run_core be Order (x # xs) m =
     (let (r, m1) = apply_core_op be Order x m;
          (rs, m2) = run_core be Order xs m1
      in (r # rs, m2))"

section \<open>Properties\<close>

lemmas prim_defs =
  issue_def std_atomic_exchange_def std_atomic_load_def std_atomic_store_def
  sync_synchronize_def sync_lock_test_and_set_def plain_read_def plain_write_def

lemmas core_defs =
  cxx11_AtomicValueImpl_def cxx11_exchange_def cxx11_get_def cxx11_set_def
  gnuc_AtomicValueImpl_def gnuc_exchange_def gnuc_get_def gnuc_set_def

lemma value_FenceBeforeStore [simp]: "value' (FenceBeforeStore Order m) = value' m"
  by (cases Order) (simp_all add: prim_defs)

lemma value_FenceAfterStore [simp]: "value' (FenceAfterStore Order m) = value' m"
  by (cases Order) (simp_all add: prim_defs)

lemma value_FenceBeforeLoad [simp]: "value' (FenceBeforeLoad Order m) = value' m"
  by (cases Order) (simp_all add: prim_defs)

lemma value_FenceAfterLoad [simp]: "value' (FenceAfterLoad Order m) = value' m"
  by (cases Order) (simp_all add: prim_defs)

text \<open>
  C3. For every value \<open>v\<close> and every state of the core, \<open>exchange v\<close> returns the value
  stored immediately before the call, and afterwards the stored value is \<open>v\<close>; this holds
  for the core over \<^verbatim>\<open>std::atomic\<close> and for the core over fences, under either ordering.
\<close>

theorem exchange_returns_old_stores_new:
  "fst (cxx11_exchange Order v m) = value' m
   \<and> value' (snd (cxx11_exchange Order v m)) = v
   \<and> fst (gnuc_exchange Order v m) = value' m
   \<and> value' (snd (gnuc_exchange Order v m)) = v"
  by (simp add: core_defs prim_defs)

text \<open>
  C6. The ordering policy of the core over \<^verbatim>\<open>std::atomic\<close> gives
  \<^verbatim>\<open>memory_order_relaxed\<close> for load, store and read-modify-write under \<open>Relaxed\<close>,
  and \<^verbatim>\<open>memory_order_seq_cst\<close> for all three under \<open>SeqCst\<close>.
\<close>

theorem StlOrdering_table:
  "Load (StlOrdering Relaxed) = memory_order_relaxed
   \<and> Store (StlOrdering Relaxed) = memory_order_relaxed
   \<and> ReadModifyWrite (StlOrdering Relaxed) = memory_order_relaxed
   \<and> Load (StlOrdering SeqCst) = memory_order_seq_cst
   \<and> Store (StlOrdering SeqCst) = memory_order_seq_cst
   \<and> ReadModifyWrite (StlOrdering SeqCst) = memory_order_seq_cst"
  by simp

subsection \<open>Fences and instruction sequences\<close>

text \<open>
  C7. In the core over fences, each of the four fences leaves the object as it is under
  \<open>Relaxed\<close> and issues one full barrier under \<open>SeqCst\<close>. \<open>get\<close> runs the
  before-load fence, a plain read and the after-load fence, in this order, and returns
  the value read; \<open>set\<close> runs the before-store fence, a plain write and the after-store
  fence.
\<close>

theorem gnuc_fence_policy:
  "FenceBeforeLoad Relaxed m = m \<and> FenceAfterLoad Relaxed m = m
   \<and> FenceBeforeStore Relaxed m = m \<and> FenceAfterStore Relaxed m = m
   \<and> FenceBeforeLoad SeqCst m = m\<lparr>trace := trace m @ [FullBarrier]\<rparr>
   \<and> FenceAfterLoad SeqCst m = m\<lparr>trace := trace m @ [FullBarrier]\<rparr>
   \<and> FenceBeforeStore SeqCst m = m\<lparr>trace := trace m @ [FullBarrier]\<rparr>
   \<and> FenceAfterStore SeqCst m = m\<lparr>trace := trace m @ [FullBarrier]\<rparr>
   \<and> gnuc_get Order m = (value' m, FenceAfterLoad Order (snd (plain_read (FenceBeforeLoad Order m))))
   \<and> gnuc_set Order v m = FenceAfterStore Order (plain_write v (FenceBeforeStore Order m))
   \<and> gnuc_get Relaxed m = (value' m, m\<lparr>trace := trace m @ [PlainRead]\<rparr>)
   \<and> gnuc_get SeqCst m = (value' m, m\<lparr>trace := trace m @ [FullBarrier, PlainRead, FullBarrier]\<rparr>)
   \<and> gnuc_set Relaxed v m = m\<lparr>value' := v, trace := trace m @ [PlainWrite v]\<rparr>
   \<and> gnuc_set SeqCst v m =
       m\<lparr>value' := v, trace := trace m @ [FullBarrier, PlainWrite v, FullBarrier]\<rparr>"
  by (simp add: core_defs prim_defs Let_def)

text \<open>
  C1, as the code has it. In the core over fences, \<open>exchange\<close> runs the ordering's
  before-store fence and then \<^verbatim>\<open>__sync_lock_test_and_set\<close>: under \<open>SeqCst\<close> one full
  barrier precedes the primitive, under \<open>Relaxed\<close> the primitive is the only instruction
  issued. Nothing follows the primitive under either ordering.
\<close>

theorem gnuc_exchange_fence_by_ordering:
  "gnuc_exchange SeqCst v m =
     (value' m, m\<lparr>value' := v, trace := trace m @ [FullBarrier, LockTestAndSet v]\<rparr>)
   \<and> gnuc_exchange Relaxed v m =
     (value' m, m\<lparr>value' := v, trace := trace m @ [LockTestAndSet v]\<rparr>)"
  by (simp add: core_defs prim_defs)

text \<open>
  C1, as stated, fails: a \<open>Relaxed\<close> exchange on a freshly constructed object issues
  no barrier at all.
\<close>

theorem gnuc_exchange_Relaxed_no_barrier:
  "trace (snd (gnuc_exchange Relaxed (1 :: int32_t) (gnuc_AtomicValueImpl 0)))
     = [LockTestAndSet 1]
   \<and> FullBarrier \<notin> set (trace (snd (gnuc_exchange Relaxed (1 :: int32_t) (gnuc_AtomicValueImpl 0))))"
  by (simp add: core_defs prim_defs)

subsection \<open>The boolean specialisation\<close>

lemma value_Base [simp]: "value' (Base be v) = v"
  by (cases be) (simp_all add: core_defs)

lemma fst_Base_get [simp]: "fst (Base_get be Order m) = value' m"
  by (cases be) (simp_all add: core_defs prim_defs Let_def split_def)

lemma value_Base_get [simp]: "value' (snd (Base_get be Order m)) = value' m"
  by (cases be) (simp_all add: core_defs prim_defs Let_def split_def)

lemma value_Base_set [simp]: "value' (Base_set be Order v m) = v"
  by (cases be) (simp_all add: core_defs prim_defs Let_def)

lemma fst_Base_exchange [simp]: "fst (Base_exchange be Order v m) = value' m"
  by (cases be) (simp_all add: core_defs prim_defs)

lemma value_Base_exchange [simp]: "value' (snd (Base_exchange be Order v m)) = v"
  by (cases be) (simp_all add: core_defs prim_defs)

lemma fst_operator_bool [simp]:
  "fst (Atomic_bool_operator_bool be Order m) \<longleftrightarrow> value' m \<noteq> 0"
  by (simp add: Atomic_bool_operator_bool_def split_def)

lemma value_operator_bool [simp]:
  "value' (snd (Atomic_bool_operator_bool be Order m)) = value' m"
  by (simp add: Atomic_bool_operator_bool_def split_def)

lemma fst_Atomic_bool_exchange [simp]:
  "fst (Atomic_bool_exchange be Order v m) \<longleftrightarrow> value' m \<noteq> 0"
  by (simp add: Atomic_bool_exchange_def split_def)

lemma value_Atomic_bool_exchange [simp]:
  "value' (snd (Atomic_bool_exchange be Order v m)) = (if v then 1 else 0)"
  by (simp add: Atomic_bool_exchange_def split_def)

lemma inv_apply_bool_op:
  "Atomic_bool_inv m \<Longrightarrow> Atomic_bool_inv (snd (apply_bool_op be Order x m))"
  by (cases x) (simp_all add: Atomic_bool_inv_def)

lemma inv_run_bool:
  "Atomic_bool_inv m \<Longrightarrow> Atomic_bool_inv (run_bool be Order ops m)"
proof (induction ops arbitrary: m)
  case Nil
  then show ?case by simp
next
  case (Cons x xs)
  from Cons.prems have "Atomic_bool_inv (snd (apply_bool_op be Order x m))"
    by (rule inv_apply_bool_op)
  then show ?case by (simp add: Cons.IH)
qed

text \<open>
  C2, as the code has it. \<^verbatim>\<open>Atomic<bool>()\<close> default-constructs to false: its integer
  core holds 0 and reading it gives \<open>False\<close>, in both builds and under either ordering.
  \<^verbatim>\<open>Atomic<int32_t>\<close> has no definition, hence no default constructor.
\<close>

theorem Atomic_bool_default_is_false:
  "value' (Atomic_bool_default be) = 0
   \<and> fst (Atomic_bool_operator_bool be Order (Atomic_bool_default be)) = False
   \<and> map_option ctor_default (Atomic be T_bool Order) = Some (Atomic_bool_default be)
   \<and> Atomic be T_int32_t Order = None"
  by (simp add: Atomic_bool_default_def)

text \<open>
  C2, as stated, fails for \<^verbatim>\<open>Atomic<int32>()\<close>: under the default ordering the lookup
  of \<^verbatim>\<open>Atomic<int32_t>\<close> finds no class in either build, so there is no object whose
  value could be 0.
\<close>

theorem Atomic_int32_not_constructible:
  "Atomic GnuFences T_int32_t SeqCst = None \<and> Atomic Cxx11Atomics T_int32_t SeqCst = None"
  by simp

text \<open>
  C4. An \<^verbatim>\<open>Atomic<bool>\<close> constructed from \<open>b\<close> and then read gives \<open>b\<close>. On an
  instance that reads as false, \<open>exchange True\<close> returns \<open>False\<close> and the instance
  then reads as true.
\<close>

theorem Atomic_bool_round_trip:
  "fst (Atomic_bool_operator_bool be Order (Atomic_bool_init be b)) = b
   \<and> (\<not> fst (Atomic_bool_operator_bool be Order m) \<longrightarrow>
        fst (Atomic_bool_exchange be Order True m) = False
        \<and> fst (Atomic_bool_operator_bool be Order
                 (snd (Atomic_bool_exchange be Order True m))) = True)"
  by (simp add: Atomic_bool_init_def)

theorem Atomic_bool_round_trip_witness:
  "\<not> fst (Atomic_bool_operator_bool GnuFences SeqCst (Atomic_bool_init GnuFences False))
   \<and> fst (Atomic_bool_operator_bool GnuFences SeqCst (Atomic_bool_init GnuFences True)) = True
   \<and> fst (Atomic_bool_exchange GnuFences SeqCst True (Atomic_bool_init GnuFences False)) = False
   \<and> fst (Atomic_bool_operator_bool GnuFences SeqCst
            (snd (Atomic_bool_exchange GnuFences SeqCst True (Atomic_bool_init GnuFences False))))
       = True"
  using Atomic_bool_round_trip [of GnuFences SeqCst True "Atomic_bool_init GnuFences False"]
        Atomic_bool_round_trip [of GnuFences SeqCst False "Atomic_bool_init GnuFences False"]
  by blast

text \<open>
  C5. The integer core of an \<^verbatim>\<open>Atomic<bool, Order>\<close> holds 0 or 1: after either
  constructor, after an \<open>exchange\<close> from any state whatever, and after every sequence
  of public operations on a constructed object.
\<close>

theorem Atomic_bool_core_is_0_or_1:
  "Atomic_bool_inv (Atomic_bool_default be)
   \<and> Atomic_bool_inv (Atomic_bool_init be b)
   \<and> Atomic_bool_inv (snd (Atomic_bool_exchange be Order b m))
   \<and> Atomic_bool_inv (run_bool be Order ops (Atomic_bool_default be))
   \<and> Atomic_bool_inv (run_bool be Order ops (Atomic_bool_init be b))"
proof -
  have d: "Atomic_bool_inv (Atomic_bool_default be)"
    by (simp add: Atomic_bool_inv_def Atomic_bool_default_def)
  have i: "Atomic_bool_inv (Atomic_bool_init be b)"
    by (simp add: Atomic_bool_inv_def Atomic_bool_init_def)
  have x: "Atomic_bool_inv (snd (Atomic_bool_exchange be Order b m))"
    by (simp add: Atomic_bool_inv_def)
  from d i x inv_run_bool [OF d] inv_run_bool [OF i] show ?thesis
    by blast
qed

subsection \<open>The primary template\<close>

text \<open>
  C10. For every type other than \<^verbatim>\<open>bool\<close>, \<^verbatim>\<open>Atomic<T, Order>\<close> is declared and not
  defined: the lookup gives no class, so no constructor, read or exchange. For
  \<^verbatim>\<open>bool\<close> it gives the specialisation.
\<close>

theorem Atomic_only_defined_for_bool:
  "(T \<noteq> T_bool \<longrightarrow> Atomic be T Order = None)
   \<and> Atomic be T_bool Order \<noteq> None"
  by (cases T) simp_all

theorem Atomic_only_defined_for_bool_witness:
  "T_class ''Widget'' \<noteq> T_bool
   \<and> Atomic Cxx11Atomics (T_class ''Widget'') Relaxed = None
   \<and> Atomic Cxx11Atomics T_bool Relaxed \<noteq> None"
  using Atomic_only_defined_for_bool [of "T_class ''Widget''" Cxx11Atomics Relaxed]
  by simp

subsection \<open>The two cores compute the same values\<close>

lemma fst_apply_core_op:
  "fst (apply_core_op be Order x m) =
     (case x of OpGet \<Rightarrow> Some (value' m) | OpSet v \<Rightarrow> None | OpExchange v \<Rightarrow> Some (value' m))"
  by (cases x) (simp_all add: split_def)

lemma value_apply_core_op:
  "value' (snd (apply_core_op be Order x m)) =
     (case x of OpGet \<Rightarrow> value' m | OpSet v \<Rightarrow> v | OpExchange v \<Rightarrow> v)"
  by (cases x) (simp_all add: split_def)

lemma run_core_agree:
  "value' m1 = value' m2 \<Longrightarrow>
     fst (run_core be1 Order ops m1) = fst (run_core be2 Order ops m2)
     \<and> value' (snd (run_core be1 Order ops m1)) = value' (snd (run_core be2 Order ops m2))"
proof (induction ops arbitrary: m1 m2)
  case Nil
  then show ?case by simp
next
  case (Cons x xs)
  let ?n1 = "snd (apply_core_op be1 Order x m1)"
  let ?n2 = "snd (apply_core_op be2 Order x m2)"
  from Cons.prems have r: "fst (apply_core_op be1 Order x m1) = fst (apply_core_op be2 Order x m2)"
    by (simp add: fst_apply_core_op split: core_op.split)
  from Cons.prems have "value' ?n1 = value' ?n2"
    by (simp add: value_apply_core_op split: core_op.split)
  then have "fst (run_core be1 Order xs ?n1) = fst (run_core be2 Order xs ?n2)
      \<and> value' (snd (run_core be1 Order xs ?n1)) = value' (snd (run_core be2 Order xs ?n2))"
    by (rule Cons.IH)
  with r show ?case
    by (simp add: split_def Let_def)
qed

text \<open>
  C8. Started from the same initial value and given the same sequence of \<open>get\<close>,
  \<open>set\<close> and \<open>exchange\<close> requests, the core over \<^verbatim>\<open>std::atomic\<close> and the core over
  fences return the same values, request by request, and end with the same stored value,
  for every value type and either ordering. (The instructions they issue differ.)
\<close>

theorem backends_same_values:
  "fst (run_core Cxx11Atomics Order ops (Base Cxx11Atomics v))
     = fst (run_core GnuFences Order ops (Base GnuFences v))
   \<and> value' (snd (run_core Cxx11Atomics Order ops (Base Cxx11Atomics v)))
     = value' (snd (run_core GnuFences Order ops (Base GnuFences v)))"
  by (rule run_core_agree) (simp add: core_defs)

end
